theory Spec2Isabelle
  imports Main "HOL-Library.Word"
begin

unbundle bit_operations_syntax

section \<open>The watch adapter of \<open>apiWatch.ts\<close>\<close>

text \<open>
  The module \<open>apiWatch.ts\<close> turns a watch request into a registration with the
  dependency engine (\<open>watch\<close> of \<open>@vue/reactivity\<close>, imported as \<open>baseWatch\<close>).
  Everything it does is to build one options object, \<open>baseWatchOptions\<close>, and to hand
  it to the engine together with the source and the callback. The three function-valued
  members it installs there (\<open>call\<close>, \<open>scheduler\<close>, \<open>augmentJob\<close>) are closures over
  the callback, the flush mode and the host instance that was current at registration.

  The module's collaborators are imported from files that are not part of this
  development: \<open>warn\<close>, \<open>queueJob\<close>, \<open>queuePostCb\<close>, \<open>callWithAsyncErrorHandling\<close> and the
  engine. A call to one of them is represented by an event that records the entry point
  and the arguments it was given; the behaviour of a piece of adapter code is the list of
  events it produces, in order. Nothing is assumed about what a collaborator does with a
  call.
\<close>

subsection \<open>Data\<close>

text \<open>The flush mode, \<open>'pre' | 'post' | 'sync'\<close> (line 44).\<close>

datatype flush_mode = Pre | Post | Sync

text \<open>
  \<open>DebuggerOptions\<close>, \<open>WatchEffectOptions\<close> and \<open>WatchOptions\<close> (lines 43 to 51). Every
  member is optional: \<open>None\<close> is a member that is absent or \<open>undefined\<close> (the code only
  compares with \<open>undefined\<close>). The debugger hooks are opaque values of type \<open>'h\<close>;
  \<open>deep\<close> is \<open>boolean | number\<close>. These records are the declared interfaces; the
  objects that callers pass are modelled further down, with the members an object of
  such a type may hold besides.
\<close>

record 'h DebuggerOptions =
  onTrack :: "'h option"
  onTrigger :: "'h option"

record 'h WatchEffectOptions = "'h DebuggerOptions" +
  flush :: "flush_mode option"

record 'h WatchOptions = "'h WatchEffectOptions" +
  immediate :: "bool option"
  deep :: "(bool + int) option"
  once :: "bool option"

text \<open>
  A host instance. Of its declaration (in \<open>./shared/instance\<close>) the module uses the
  member \<open>uid\<close> only; the record is extensible, so an instance may carry any further
  members.
\<close>

record host_instance =
  uid :: int

text \<open>
  A \<open>SchedulerJob\<close>: a function object with the optional members \<open>flags\<close>, \<open>id\<close> and
  \<open>i\<close>. The flags are a bit set held in a JavaScript number that the code updates with
  \<open>|=\<close>, a 32-bit operation. The record is extensible: its extension stands for
  everything else the job is (the function itself, any other property).
\<close>

record 'i SchedulerJob =
  job_flags :: "32 word option"
  job_id :: "int option"
  job_i :: "'i option"

text \<open>
  The operand conversion of \<open>|=\<close>: an \<open>undefined\<close> operand counts as 0, so the hook
  also works on a job that has no \<open>flags\<close> member yet.
\<close>

definition ToInt32 :: "32 word option \<Rightarrow> 32 word" where
  "ToInt32 v = (case v of None \<Rightarrow> 0 | Some w \<Rightarrow> w)"

text \<open>
  A job has a flag when its flags hold a bit of it: \<open>job.flags & FLAG\<close> taken as a
  truth value.
\<close>

definition has_flag :: "('i, 'z) SchedulerJob_scheme \<Rightarrow> 32 word \<Rightarrow> bool" where
  "has_flag job f = (ToInt32 (job_flags job) AND f \<noteq> 0)"

text \<open>
  What the module reads from its surroundings: the build flag \<open>__DEV__\<close>, the ambient
  \<open>currentInstance\<close> (\<open>None\<close> for \<open>null\<close>), and the two members of the enumeration
  \<open>SchedulerJobFlags\<close> it uses. The enumeration is declared in \<open>./vue/scheduler\<close>; its
  values are parameters here.
\<close>

record 'i env =
  DEV :: bool
  currentInstance :: "'i option"
  ALLOW_RECURSE :: "32 word"
  PRE :: "32 word"

text \<open>
  The enumeration is a set of flags: each member is a non-empty set of bits and the two
  members share no bit.
\<close>

definition flags_distinct :: "'i env \<Rightarrow> bool" where
  "flags_distinct env =
     (ALLOW_RECURSE env \<noteq> 0 \<and> PRE env \<noteq> 0 \<and> ALLOW_RECURSE env AND PRE env = 0)"

subsection \<open>Collaborators\<close>

text \<open>
  One event per call that leaves the module: of an imported function, \<open>warn(msg)\<close>,
  \<open>queueJob(job)\<close>, \<open>queuePostCb(job, isFirstRun)\<close> and
  \<open>callWithAsyncErrorHandling(fn, instance, type, args)\<close>, or of the job itself,
  \<open>job()\<close>. \<open>'j\<close> is the type of jobs,
  \<open>'i\<close> of instances, \<open>'f\<close> of the functions given to \<open>call\<close>, \<open>'a\<close> of their
  arguments (\<open>args\<close> is an optional array).
\<close>

datatype ('j, 'i, 'f, 'a) event =
    Warn string
  | Invoke 'j
  | QueueJob 'j
  | QueuePostCb 'j bool
  | CallWithAsyncErrorHandling 'f "'i option" string "'a list option"

definition warn :: "string \<Rightarrow> ('j, 'i, 'f, 'a) event list" where
  "warn msg = [Warn msg]"

definition queueJob :: "'j \<Rightarrow> ('j, 'i, 'f, 'a) event list" where
  "queueJob job = [QueueJob job]"

text \<open>
  The engine calls the scheduler with two arguments, so where \<open>queuePostCb\<close> itself is
  the scheduler it receives both.
\<close>

definition queuePostCb :: "'j \<Rightarrow> bool \<Rightarrow> ('j, 'i, 'f, 'a) event list" where
  "queuePostCb job isFirstRun = [QueuePostCb job isFirstRun]"

definition callWithAsyncErrorHandling ::
  "'f \<Rightarrow> 'i option \<Rightarrow> string \<Rightarrow> 'a list option \<Rightarrow> ('j, 'i, 'f, 'a) event list" where
  "callWithAsyncErrorHandling fn inst type args = [CallWithAsyncErrorHandling fn inst type args]"

text \<open>
  An options object: the members \<open>WatchOptions\<close> declares and the four further members
  the engine reads, \<open>onWarn\<close>, \<open>call\<close>, \<open>scheduler\<close> and \<open>augmentJob\<close>. This is the
  shape of the object handed to the engine, and of the object a caller passes as well:
  the parameter is declared as \<open>WatchOptions\<close> (or \<open>DebuggerOptions\<close>), but an object
  with more members has that type too, and the copy \<open>{ ...options }\<close> takes every
  member it finds. Members the engine does not read play no part.
\<close>

record ('h, 'j, 'i, 'f, 'a) BaseWatchOptions = "'h WatchOptions" +
  onWarn :: "(string \<Rightarrow> ('j, 'i, 'f, 'a) event list) option"
  call :: "('f \<Rightarrow> string \<Rightarrow> 'a list option \<Rightarrow> ('j, 'i, 'f, 'a) event list) option"
  scheduler :: "('j \<Rightarrow> bool \<Rightarrow> ('j, 'i, 'f, 'a) event list) option"
  augmentJob :: "('j \<Rightarrow> 'j) option"

text \<open>\<open>EMPTY_OBJ\<close>, the default of the \<open>options\<close> parameter: an object with no member.\<close>

definition EMPTY_OBJ :: "('h, 'j, 'i, 'f, 'a) BaseWatchOptions" where
  "EMPTY_OBJ = \<lparr>onTrack = None, onTrigger = None, flush = None,
                 immediate = None, deep = None, once = None,
                 onWarn = None, call = None, scheduler = None, augmentJob = None\<rparr>"


text \<open>
  What a registration does: the events of the adapter's own calls, in order, and the
  arguments of the one call of the engine that ends it. The handle returned to the
  caller is the engine's result of that call.
\<close>

record ('s, 'c, 'h, 'j, 'i, 'f, 'a) registration =
  events :: "('j, 'i, 'f, 'a) event list"
  watch_source :: 's
  watch_cb :: "'c option"
  baseWatchOptions :: "('h, 'j, 'i, 'f, 'a) BaseWatchOptions"

subsection \<open>Building the registration: \<open>doWatch\<close>\<close>

text \<open>The three diagnostics of lines 149 to 164.\<close>

definition immediate_msg :: string where
  \<open>immediate_msg = ''watch() "immediate" option is only respected when using the '' @
     ''watch(source, callback, options?) signature.''\<close>

definition deep_msg :: string where
  \<open>deep_msg = ''watch() "deep" option is only respected when using the '' @
     ''watch(source, callback, options?) signature.''\<close>

definition once_msg :: string where
  \<open>once_msg = ''watch() "once" option is only respected when using the '' @
     ''watch(source, callback, options?) signature.''\<close>

text \<open>
  The \<open>call\<close> closure of lines 175 and 176, over the captured \<open>instance\<close>.
\<close>

definition doWatch_call ::
  "'i option \<Rightarrow> 'f \<Rightarrow> string \<Rightarrow> 'a list option \<Rightarrow> ('j, 'i, 'f, 'a) event list" where
  "doWatch_call inst fn type args = callWithAsyncErrorHandling fn inst type args"

text \<open>The scheduler closure of the default branch, lines 185 to 191.\<close>

definition doWatch_scheduler :: "'j \<Rightarrow> bool \<Rightarrow> ('j, 'i, 'f, 'a) event list" where
  "doWatch_scheduler job isFirstRun = (if isFirstRun then [Invoke job] else queueJob job)"

text \<open>
  The \<open>augmentJob\<close> closure of lines 194 to 207, over the captured \<open>cb\<close>, \<open>isPre\<close>
  and \<open>instance\<close>. It updates the job in place; the model returns the updated job.
  \<open>job.flags! |= F\<close> stores the 32-bit disjunction of the old value and \<open>F\<close> (the \<open>!\<close>
  is a type annotation only).
\<close>

definition doWatch_augmentJob ::
  "('y host_instance_scheme) env \<Rightarrow> 'c option \<Rightarrow> bool \<Rightarrow> 'y host_instance_scheme option \<Rightarrow>
   ('y host_instance_scheme, 'z) SchedulerJob_scheme \<Rightarrow>
   ('y host_instance_scheme, 'z) SchedulerJob_scheme" where
  "doWatch_augmentJob env cb isPre inst job =
     (let job1 = (if cb \<noteq> None
                  then job\<lparr>job_flags := Some (ToInt32 (job_flags job) OR ALLOW_RECURSE env)\<rparr>
                  else job)
      in if isPre
         then (let job2 = job1\<lparr>job_flags := Some (ToInt32 (job_flags job1) OR PRE env)\<rparr>
               in case inst of
                    Some instance \<Rightarrow> job2\<lparr>job_id := Some (uid instance), job_i := Some instance\<rparr>
                  | None \<Rightarrow> job2)
         else job1)"

text \<open>
  The default of the parameter \<open>options\<close> of \<open>doWatch\<close> (line 143): an absent
  argument is \<open>EMPTY_OBJ\<close>.
\<close>

definition effective_options ::
  "('h, 'j, 'i, 'f, 'a) BaseWatchOptions option \<Rightarrow> ('h, 'j, 'i, 'f, 'a) BaseWatchOptions" where
  "effective_options options_arg = (case options_arg of None \<Rightarrow> EMPTY_OBJ | Some opts \<Rightarrow> opts)"

text \<open>
  \<open>doWatch\<close> (lines 140 to 212); \<open>cb\<close> is a callback or \<open>null\<close>. The steps follow
  the source: the diagnostics of a development build, the copy \<open>{ ...options }\<close>
  (\<open>bwo0\<close>, with every member of the caller's object), \<open>onWarn\<close>, the captured
  instance, \<open>call\<close>, the scheduler chosen by \<open>flush\<close> together with \<open>isPre\<close>,
  \<open>augmentJob\<close>, and the call of the engine. A member the code does not assign keeps
  the value the caller's object gave it.
\<close>

definition doWatch ::
  "('y host_instance_scheme) env \<Rightarrow> 's \<Rightarrow> 'c option \<Rightarrow>
   ('h, ('y host_instance_scheme, 'z) SchedulerJob_scheme,
    'y host_instance_scheme, 'f, 'a) BaseWatchOptions option \<Rightarrow>
   ('s, 'c, 'h, ('y host_instance_scheme, 'z) SchedulerJob_scheme,
    'y host_instance_scheme, 'f, 'a) registration" where
  "doWatch env source cb options_arg =
     (let options = effective_options options_arg;
          warned =
            (if DEV env \<and> cb = None
             then (if immediate options \<noteq> None then warn immediate_msg else []) @
                  (if deep options \<noteq> None then warn deep_msg else []) @
                  (if once options \<noteq> None then warn once_msg else [])
             else []);
          bwo0 = options;
          bwo1 = (if DEV env then bwo0\<lparr>onWarn := Some warn\<rparr> else bwo0);
          inst = currentInstance env;
          bwo2 = bwo1\<lparr>call := Some (doWatch_call inst)\<rparr>;
          (isPre, bwo3) =
            (if flush options = Some Post
             then (False, bwo2\<lparr>scheduler := Some queuePostCb\<rparr>)
             else if flush options \<noteq> Some Sync
             then (True, bwo2\<lparr>scheduler := Some doWatch_scheduler\<rparr>)
             else (False, bwo2));
          bwo4 = bwo3\<lparr>augmentJob := Some (doWatch_augmentJob env cb isPre inst)\<rparr>
      in \<lparr>events = warned, watch_source = source, watch_cb = cb, baseWatchOptions = bwo4\<rparr>)"

subsection \<open>The exported functions\<close>

text \<open>\<open>watchEffect\<close> (lines 54 to 59).\<close>

definition watchEffect ::
  "('y host_instance_scheme) env \<Rightarrow> 's \<Rightarrow>
   ('h, ('y host_instance_scheme, 'z) SchedulerJob_scheme,
    'y host_instance_scheme, 'f, 'a) BaseWatchOptions option \<Rightarrow>
   ('s, 'c, 'h, ('y host_instance_scheme, 'z) SchedulerJob_scheme,
    'y host_instance_scheme, 'f, 'a) registration" where
  "watchEffect env effect options = doWatch env effect None options"

text \<open>
  \<open>watchPostEffect\<close> and \<open>watchSyncEffect\<close> (lines 61 to 81). In a development build
  the options are the caller's members with \<open>flush\<close> written after them; spreading an
  absent \<open>options\<close> yields no member. In a production build they are \<open>flush\<close> alone.
\<close>

definition watchPostEffect ::
  "('y host_instance_scheme) env \<Rightarrow> 's \<Rightarrow>
   ('h, ('y host_instance_scheme, 'z) SchedulerJob_scheme,
    'y host_instance_scheme, 'f, 'a) BaseWatchOptions option \<Rightarrow>
   ('s, 'c, 'h, ('y host_instance_scheme, 'z) SchedulerJob_scheme,
    'y host_instance_scheme, 'f, 'a) registration" where
  "watchPostEffect env effect options =
     doWatch env effect None
       (if DEV env
        then Some ((case options of None \<Rightarrow> EMPTY_OBJ | Some opts \<Rightarrow> opts)\<lparr>flush := Some Post\<rparr>)
        else Some (EMPTY_OBJ\<lparr>flush := Some Post\<rparr>))"

definition watchSyncEffect ::
  "('y host_instance_scheme) env \<Rightarrow> 's \<Rightarrow>
   ('h, ('y host_instance_scheme, 'z) SchedulerJob_scheme,
    'y host_instance_scheme, 'f, 'a) BaseWatchOptions option \<Rightarrow>
   ('s, 'c, 'h, ('y host_instance_scheme, 'z) SchedulerJob_scheme,
    'y host_instance_scheme, 'f, 'a) registration" where
  "watchSyncEffect env effect options =
     doWatch env effect None
       (if DEV env
        then Some ((case options of None \<Rightarrow> EMPTY_OBJ | Some opts \<Rightarrow> opts)\<lparr>flush := Some Sync\<rparr>)
        else Some (EMPTY_OBJ\<lparr>flush := Some Sync\<rparr>))"

text \<open>
  \<open>watch\<close> (lines 125 to 138). Its \<open>cb\<close> is declared \<open>any\<close>, and the diagnostic is
  for a \<open>cb\<close> that is not a function. \<open>doWatch\<close> only tests whether \<open>cb\<close> is truthy, so
  here \<open>cb\<close> is an optional value of any type \<open>'c\<close>, \<open>None\<close> for a falsy one, and
  \<open>isFunction\<close> (imported from \<open>./shared/utils\<close>) is a parameter that tells which
  values are functions. A falsy value is not a function.
\<close>

definition signature_msg :: string where
  \<open>signature_msg = ''`watch(fn, options?)` signature has been moved to a separate API. '' @
     ''Use `watchEffect(fn, options?)` instead. `watch` now only '' @
     ''supports `watch(source, cb, options?) signature.''\<close>

definition watch ::
  "('y host_instance_scheme) env \<Rightarrow> ('c \<Rightarrow> bool) \<Rightarrow> 's \<Rightarrow> 'c option \<Rightarrow>
   ('h, ('y host_instance_scheme, 'z) SchedulerJob_scheme,
    'y host_instance_scheme, 'f, 'a) BaseWatchOptions option \<Rightarrow>
   ('s, 'c, 'h, ('y host_instance_scheme, 'z) SchedulerJob_scheme,
    'y host_instance_scheme, 'f, 'a) registration" where
  "watch env isFunction source cb options =
     (let cb_isFunction = (case cb of None \<Rightarrow> False | Some v \<Rightarrow> isFunction v);
          warned = (if DEV env \<and> \<not> cb_isFunction then warn signature_msg else []);
          r = doWatch env source cb options
      in r\<lparr>events := warned @ events r\<rparr>)"

subsection \<open>Reading a registration\<close>

text \<open>
  The members the adapter installed, as the engine finds them in the options object.
\<close>

abbreviation the_call where
  "the_call r \<equiv> the (call (baseWatchOptions r))"

abbreviation the_scheduler where
  "the_scheduler r \<equiv> the (scheduler (baseWatchOptions r))"

abbreviation the_augmentJob where
  "the_augmentJob r \<equiv> the (augmentJob (baseWatchOptions r))"

subsection \<open>Sample values\<close>

text \<open>
  A development build with a current instance, a production build outside any instance,
  a job as the engine creates it, with none of \<open>flags\<close>, \<open>id\<close> and \<open>i\<close>, and a
  job that already has bit 0 of its flags and an \<open>id\<close>. The rest of a sample job is a
  name. In the sample registrations sources, callbacks, functions and arguments are
  numbers.
\<close>

definition sample_instance :: host_instance where
  "sample_instance = \<lparr>uid = 7\<rparr>"

definition dev_env :: "host_instance env" where
  "dev_env = \<lparr>DEV = True, currentInstance = Some sample_instance, ALLOW_RECURSE = 4, PRE = 2\<rparr>"

definition prod_env :: "host_instance env" where
  "prod_env = \<lparr>DEV = False, currentInstance = None, ALLOW_RECURSE = 4, PRE = 2\<rparr>"

definition fresh_job :: "(host_instance, string) SchedulerJob_scheme" where
  "fresh_job = \<lparr>job_flags = None, job_id = None, job_i = None, \<dots> = ''job''\<rparr>"

definition queued_job :: "(host_instance, string) SchedulerJob_scheme" where
  "queued_job = \<lparr>job_flags = Some 1, job_id = Some 9, job_i = None, \<dots> = ''job''\<rparr>"

type_synonym sample_options =
  "(unit, (host_instance, string) SchedulerJob_scheme, host_instance, nat, nat) BaseWatchOptions"

definition pre_options :: sample_options where
  "pre_options = EMPTY_OBJ\<lparr>flush := Some Pre\<rparr>"

definition post_options :: sample_options where
  "post_options = EMPTY_OBJ\<lparr>flush := Some Post\<rparr>"


text \<open>Options that ask for \<open>immediate\<close> and \<open>once\<close> and nothing else.\<close>

definition noisy_options :: sample_options where
  "noisy_options = EMPTY_OBJ\<lparr>immediate := Some True, once := Some False\<rparr>"

text \<open>
  A scheduler of the caller's own, which runs every job at once, and options with
  \<open>flush: 'sync'\<close> that hold it as a further member.
\<close>

definition caller_scheduler ::
  "(host_instance, string) SchedulerJob_scheme \<Rightarrow> bool \<Rightarrow>
   ((host_instance, string) SchedulerJob_scheme, host_instance, nat, nat) event list" where
  "caller_scheduler job isFirstRun = [Invoke job]"

definition sync_options_with_scheduler :: sample_options where
  "sync_options_with_scheduler = EMPTY_OBJ\<lparr>flush := Some Sync, scheduler := Some caller_scheduler\<rparr>"

type_synonym sample_registration =
  "(nat, nat, unit, (host_instance, string) SchedulerJob_scheme, host_instance, nat, nat)
   registration"

section \<open>Members of the options object\<close>

lemma doWatch_scheduler_member:
  "scheduler (baseWatchOptions (doWatch env source cb oa)) =
     (if flush (effective_options oa) = Some Post then Some queuePostCb
      else if flush (effective_options oa) \<noteq> Some Sync then Some doWatch_scheduler
      else scheduler (effective_options oa))"
  by (simp add: doWatch_def Let_def)

lemma doWatch_augmentJob_member:
  "augmentJob (baseWatchOptions (doWatch env source cb oa)) =
     Some (doWatch_augmentJob env cb
             (flush (effective_options oa) \<noteq> Some Post \<and> flush (effective_options oa) \<noteq> Some Sync)
             (currentInstance env))"
  by (simp add: doWatch_def Let_def)

lemma doWatch_call_member:
  "call (baseWatchOptions (doWatch env source cb oa)) = Some (doWatch_call (currentInstance env))"
  by (simp add: doWatch_def Let_def split: prod.splits)

lemma doWatch_onWarn_member:
  "onWarn (baseWatchOptions (doWatch env source cb oa)) =
     (if DEV env then Some warn else onWarn (effective_options oa))"
  by (simp add: doWatch_def Let_def split: prod.splits)

lemma doWatch_forwarded:
  "WatchOptions.truncate (baseWatchOptions (doWatch env source cb oa)) =
     WatchOptions.truncate (effective_options oa)"
  by (simp add: doWatch_def Let_def WatchOptions.truncate_def split: prod.splits)

lemma doWatch_flush_member:
  "flush (baseWatchOptions (doWatch env source cb oa)) = flush (effective_options oa)"
  by (simp add: doWatch_def Let_def split: prod.splits)


lemma doWatch_engine_arguments:
  "watch_source (doWatch env source cb oa) = source \<and> watch_cb (doWatch env source cb oa) = cb"
  by (simp add: doWatch_def Let_def split: prod.splits)

lemma doWatch_result:
  "doWatch env source cb oa =
     \<lparr>events =
        (if DEV env \<and> cb = None
         then (if immediate (effective_options oa) \<noteq> None then [Warn immediate_msg] else []) @
              (if deep (effective_options oa) \<noteq> None then [Warn deep_msg] else []) @
              (if once (effective_options oa) \<noteq> None then [Warn once_msg] else [])
         else []),
      watch_source = source, watch_cb = cb,
      baseWatchOptions =
        (effective_options oa)
        \<lparr>onWarn := (if DEV env then Some warn else onWarn (effective_options oa)),
         call := Some (doWatch_call (currentInstance env)),
         scheduler :=
           (if flush (effective_options oa) = Some Post then Some queuePostCb
            else if flush (effective_options oa) \<noteq> Some Sync then Some doWatch_scheduler
            else scheduler (effective_options oa)),
         augmentJob :=
           Some (doWatch_augmentJob env cb
                  (flush (effective_options oa) \<noteq> Some Post \<and>
                   flush (effective_options oa) \<noteq> Some Sync)
                  (currentInstance env))\<rparr>\<rparr>"
  by (simp add: doWatch_def Let_def warn_def)

lemma truncate_flush_only:
  "WatchOptions.truncate (EMPTY_OBJ\<lparr>flush := f\<rparr>) =
     \<lparr>onTrack = None, onTrigger = None, flush = f, immediate = None, deep = None, once = None\<rparr>"
  by (simp add: EMPTY_OBJ_def WatchOptions.truncate_def)

lemma effective_options_Some: "effective_options (Some opts) = opts"
  by (simp add: effective_options_def)

lemma effective_options_None: "effective_options None = EMPTY_OBJ"
  by (simp add: effective_options_def)

lemma watch_registers_as_doWatch:
  "baseWatchOptions (watch env isFunction source cb oa) =
     baseWatchOptions (doWatch env source cb oa) \<and>
   watch_source (watch env isFunction source cb oa) = source \<and>
   watch_cb (watch env isFunction source cb oa) = cb"
  by (simp add: watch_def Let_def doWatch_engine_arguments)

section \<open>The job after augmentation\<close>

lemma augmentJob_flags:
  "ToInt32 (job_flags (doWatch_augmentJob env cb isPre inst job)) =
     ToInt32 (job_flags job) OR (if cb \<noteq> None then ALLOW_RECURSE env else 0)
       OR (if isPre then PRE env else 0)"
  by (cases cb; cases inst; cases "job_flags job")
     (simp_all add: doWatch_augmentJob_def Let_def ToInt32_def or.assoc)

lemma augmentJob_id:
  "job_id (doWatch_augmentJob env cb isPre inst job) =
     (if isPre \<and> inst \<noteq> None then Some (uid (the inst)) else job_id job)"
  by (simp add: doWatch_augmentJob_def Let_def split: option.splits)

lemma augmentJob_i:
  "job_i (doWatch_augmentJob env cb isPre inst job) =
     (if isPre \<and> inst \<noteq> None then inst else job_i job)"
  by (simp add: doWatch_augmentJob_def Let_def split: option.splits)

lemma augmentJob_more:
  "SchedulerJob.more (doWatch_augmentJob env cb isPre inst job) = SchedulerJob.more job"
  by (simp add: doWatch_augmentJob_def Let_def split: option.splits)

lemma has_flag_augmentJob:
  "has_flag (doWatch_augmentJob env cb isPre inst job) f =
     (has_flag job f \<or> (cb \<noteq> None \<and> ALLOW_RECURSE env AND f \<noteq> 0) \<or> (isPre \<and> PRE env AND f \<noteq> 0))"
  by (auto simp: has_flag_def augmentJob_flags bit.conj_disj_distrib2 or_eq_0_iff)



section \<open>Properties of a registration\<close>

text \<open>
  Claim C1. For a registration whose flush mode is \<open>'pre'\<close> or is omitted, \<open>doWatch\<close>
  installs a scheduler. Called with \<open>isFirstRun = true\<close> it calls the job itself,
  once, and submits nothing to a queue; called with \<open>isFirstRun = false\<close> it submits
  the job once with \<open>queueJob\<close> and does not call it.
\<close>

theorem pre_scheduler_runs_first_then_queues:
  assumes "r = doWatch env source cb options"
    and "flush (effective_options options) = None \<or> flush (effective_options options) = Some Pre"
  shows "scheduler (baseWatchOptions r) \<noteq> None \<and>
         the_scheduler r job True = [Invoke job] \<and>
         the_scheduler r job False = [QueueJob job]"
  using assms by (auto simp: doWatch_scheduler_member doWatch_scheduler_def queueJob_def)

text \<open>
  The theorem at a registration with \<open>flush: 'pre'\<close> in a development build.
\<close>

theorem pre_scheduler_runs_first_then_queues_witness:
  "(flush (effective_options (Some pre_options)) = None \<or>
    flush (effective_options (Some pre_options)) = Some Pre) \<and>
   the_scheduler (doWatch dev_env 3 (Some 5) (Some pre_options) :: sample_registration)
     fresh_job True = [Invoke fresh_job] \<and>
   the_scheduler (doWatch dev_env 3 (Some 5) (Some pre_options) :: sample_registration)
     fresh_job False = [QueueJob fresh_job]"
proof -
  have pre: "flush (effective_options (Some pre_options)) = None \<or>
    flush (effective_options (Some pre_options)) = Some Pre"
    by (simp add: effective_options_def pre_options_def post_options_def)
  show ?thesis
    using pre pre_scheduler_runs_first_then_queues
      [where r = "doWatch dev_env 3 (Some 5) (Some pre_options) :: sample_registration"
         and job = fresh_job, OF refl pre]
    by simp
qed

text \<open>
  Claim C2. \<open>doWatch\<close> always installs \<open>augmentJob\<close>. After it has run, the job
  carries \<open>ALLOW_RECURSE\<close> exactly if a callback was supplied or the job carried the
  flag before; so on a job without the flag, the hook sets it if and only if there is a
  callback. \<open>watchEffect\<close>, \<open>watchPostEffect\<close> and \<open>watchSyncEffect\<close> register without
  a callback, and their hook leaves the flag as it was. The premise on the enumeration
  says that \<open>ALLOW_RECURSE\<close> and \<open>PRE\<close> are non-empty and share no bit.
\<close>

theorem allow_recurse_iff_callback:
  assumes "flags_distinct env"
    and "r = doWatch env source cb options"
    and "r1 = watchEffect env source options"
    and "r2 = watchPostEffect env source options"
    and "r3 = watchSyncEffect env source options"
  shows "augmentJob (baseWatchOptions r) \<noteq> None \<and>
         has_flag (the_augmentJob r job) (ALLOW_RECURSE env) =
           (cb \<noteq> None \<or> has_flag job (ALLOW_RECURSE env)) \<and>
         watch_cb r1 = None \<and>
         has_flag (the_augmentJob r1 job) (ALLOW_RECURSE env) = has_flag job (ALLOW_RECURSE env) \<and>
         watch_cb r2 = None \<and>
         has_flag (the_augmentJob r2 job) (ALLOW_RECURSE env) = has_flag job (ALLOW_RECURSE env) \<and>
         watch_cb r3 = None \<and>
         has_flag (the_augmentJob r3 job) (ALLOW_RECURSE env) = has_flag job (ALLOW_RECURSE env)"
proof -
  from assms(1) have ar: "ALLOW_RECURSE env \<noteq> 0"
    and pre: "PRE env AND ALLOW_RECURSE env = 0"
    by (simp_all add: flags_distinct_def and.commute)
  show ?thesis
    unfolding assms(2-)
    by (auto simp: watchEffect_def watchPostEffect_def watchSyncEffect_def
        doWatch_augmentJob_member doWatch_engine_arguments has_flag_augmentJob ar pre)
qed

text \<open>
  The theorem at a fresh job: with a callback the flag is set, without one it is not.
\<close>

theorem allow_recurse_iff_callback_witness:
  "flags_distinct dev_env \<and>
   has_flag (the_augmentJob (doWatch dev_env 3 (Some 5) None :: sample_registration) fresh_job) 4 \<and>
   \<not> has_flag (the_augmentJob (watchEffect dev_env 3 None :: sample_registration) fresh_job) 4 \<and>
   \<not> has_flag (the_augmentJob (watchPostEffect dev_env 3 None :: sample_registration) fresh_job) 4 \<and>
   \<not> has_flag (the_augmentJob (watchSyncEffect dev_env 3 None :: sample_registration) fresh_job) 4"
proof -
  have d: "flags_distinct dev_env"
    by (simp add: flags_distinct_def dev_env_def)
  have f: "\<not> has_flag fresh_job (ALLOW_RECURSE dev_env)"
    by (simp add: has_flag_def fresh_job_def ToInt32_def)
  have a: "ALLOW_RECURSE dev_env = 4"
    by (simp add: dev_env_def)
  show ?thesis
    using d f allow_recurse_iff_callback
      [where r = "doWatch dev_env 3 (Some 5) None :: sample_registration"
         and ?r1.0 = "watchEffect dev_env 3 None :: sample_registration"
         and ?r2.0 = "watchPostEffect dev_env 3 None :: sample_registration"
         and ?r3.0 = "watchSyncEffect dev_env 3 None :: sample_registration"
         and job = fresh_job, OF d refl refl refl refl]
    by (simp add: a)
qed

text \<open>
  Claim C3. With flush mode \<open>'pre'\<close> or omitted, the hook sets \<open>PRE\<close>; if an instance
  was current at registration it stores the instance's \<open>uid\<close> in \<open>job.id\<close> and the
  instance in \<open>job.i\<close>, and otherwise leaves both members as they were. With flush mode
  \<open>'post'\<close> or \<open>'sync'\<close> the hook changes none of \<open>PRE\<close>, \<open>job.id\<close> and \<open>job.i\<close>.
\<close>

theorem pre_flag_and_ordering_key:
  assumes "flags_distinct env"
    and "r = doWatch env source cb options"
  shows "augmentJob (baseWatchOptions r) \<noteq> None \<and>
         (flush (effective_options options) = None \<or> flush (effective_options options) = Some Pre \<longrightarrow>
            has_flag (the_augmentJob r job) (PRE env) \<and>
            (case currentInstance env of
               Some inst \<Rightarrow>
                 job_id (the_augmentJob r job) = Some (uid inst) \<and>
                 job_i (the_augmentJob r job) = Some inst
             | None \<Rightarrow>
                 job_id (the_augmentJob r job) = job_id job \<and>
                 job_i (the_augmentJob r job) = job_i job)) \<and>
         (flush (effective_options options) = Some Post \<or> flush (effective_options options) = Some Sync \<longrightarrow>
            has_flag (the_augmentJob r job) (PRE env) = has_flag job (PRE env) \<and>
            job_id (the_augmentJob r job) = job_id job \<and>
            job_i (the_augmentJob r job) = job_i job)"
proof -
  from assms(1) have pre: "PRE env \<noteq> 0" and ar: "ALLOW_RECURSE env AND PRE env = 0"
    by (simp_all add: flags_distinct_def)
  show ?thesis
    unfolding assms(2)
    by (auto simp: doWatch_augmentJob_member has_flag_augmentJob augmentJob_id augmentJob_i
        pre ar split: option.splits)
qed

text \<open>
  The theorem at a fresh job, for an omitted flush mode with and without a current
  instance, and for \<open>flush: 'post'\<close>.
\<close>

theorem pre_flag_and_ordering_key_witness:
  "flags_distinct dev_env \<and> flags_distinct prod_env \<and>
   flush (effective_options (None :: sample_options option)) = None \<and>
   has_flag (the_augmentJob (doWatch dev_env 3 (Some 5) None :: sample_registration) fresh_job) 2 \<and>
   job_id (the_augmentJob (doWatch dev_env 3 (Some 5) None :: sample_registration) fresh_job) = Some 7 \<and>
   job_i (the_augmentJob (doWatch dev_env 3 (Some 5) None :: sample_registration) fresh_job)
     = Some sample_instance \<and>
   has_flag (the_augmentJob (doWatch prod_env 3 (Some 5) None :: sample_registration) fresh_job) 2 \<and>
   job_id (the_augmentJob (doWatch prod_env 3 (Some 5) None :: sample_registration) fresh_job) = None \<and>
   job_i (the_augmentJob (doWatch prod_env 3 (Some 5) None :: sample_registration) fresh_job) = None \<and>
   flush (effective_options (Some post_options)) = Some Post \<and>
   \<not> has_flag (the_augmentJob
        (doWatch dev_env 3 (Some 5) (Some post_options) :: sample_registration)
        fresh_job) 2 \<and>
   job_id (the_augmentJob
        (doWatch dev_env 3 (Some 5) (Some post_options) :: sample_registration)
        fresh_job) = None \<and>
   job_i (the_augmentJob
        (doWatch dev_env 3 (Some 5) (Some post_options) :: sample_registration)
        fresh_job) = None"
proof -
  have d: "flags_distinct dev_env" and p: "flags_distinct prod_env"
    by (simp_all add: flags_distinct_def dev_env_def prod_env_def)
  have omitted: "flush (effective_options (None :: sample_options option)) = None"
    by (simp add: effective_options_def EMPTY_OBJ_def)
  have post: "flush (effective_options (Some post_options)) = Some Post"
    by (simp add: effective_options_def pre_options_def post_options_def)
  have vals: "PRE dev_env = 2" "PRE prod_env = 2" "currentInstance dev_env = Some sample_instance"
    "currentInstance prod_env = None" "uid sample_instance = 7"
    "\<not> has_flag fresh_job 2" "job_id fresh_job = None" "job_i fresh_job = None"
    by (simp_all add: dev_env_def prod_env_def sample_instance_def fresh_job_def
        has_flag_def ToInt32_def)
  show ?thesis
    using d p omitted post
      pre_flag_and_ordering_key
        [where r = "doWatch dev_env 3 (Some 5) None :: sample_registration"
           and job = fresh_job, OF d refl]
      pre_flag_and_ordering_key
        [where r = "doWatch prod_env 3 (Some 5) None :: sample_registration"
           and job = fresh_job, OF p refl]
      pre_flag_and_ordering_key
        [where r = "doWatch dev_env 3 (Some 5) (Some post_options) :: sample_registration"
           and job = fresh_job, OF d refl]
    by (simp add: vals)
qed




text \<open>
  Claim C5. A registration that omits \<open>flush\<close> behaves as the same registration with
  \<open>flush: 'pre'\<close>. Each of the two installs the scheduler that calls the job on the first
  run and submits it with \<open>queueJob\<close> afterwards, and each installs a hook that sets
  \<open>PRE\<close> and, when an instance was current, stores its \<open>uid\<close> in \<open>job.id\<close> and the
  instance in \<open>job.i\<close>. The two schedulers and the two hooks are the same, and the two
  registrations differ in nothing but the member \<open>flush\<close> that is copied to the engine.
  The same holds between a registration with no options object and one whose options
  are \<open>{ flush: 'pre' }\<close>.
\<close>

theorem omitted_flush_is_pre:
  assumes "flags_distinct env"
    and "r_omitted = doWatch env source cb (Some (opts\<lparr>flush := None\<rparr>))"
    and "r_pre = doWatch env source cb (Some (opts\<lparr>flush := Some Pre\<rparr>))"
    and "r_absent = doWatch env source cb None"
    and "r_only_pre = doWatch env source cb (Some (EMPTY_OBJ\<lparr>flush := Some Pre\<rparr>))"
  shows "scheduler (baseWatchOptions r_omitted) \<noteq> None \<and>
         the_scheduler r_omitted job True = [Invoke job] \<and>
         the_scheduler r_omitted job False = [QueueJob job] \<and>
         the_scheduler r_pre job True = [Invoke job] \<and>
         the_scheduler r_pre job False = [QueueJob job] \<and>
         augmentJob (baseWatchOptions r_omitted) \<noteq> None \<and>
         has_flag (the_augmentJob r_omitted job) (PRE env) \<and>
         has_flag (the_augmentJob r_pre job) (PRE env) \<and>
         (case currentInstance env of
            Some inst \<Rightarrow>
              job_id (the_augmentJob r_omitted job) = Some (uid inst) \<and>
              job_i (the_augmentJob r_omitted job) = Some inst \<and>
              job_id (the_augmentJob r_pre job) = Some (uid inst) \<and>
              job_i (the_augmentJob r_pre job) = Some inst
          | None \<Rightarrow>
              job_id (the_augmentJob r_omitted job) = job_id job \<and>
              job_i (the_augmentJob r_omitted job) = job_i job \<and>
              job_id (the_augmentJob r_pre job) = job_id job \<and>
              job_i (the_augmentJob r_pre job) = job_i job) \<and>
         the_scheduler r_omitted job isFirstRun = the_scheduler r_pre job isFirstRun \<and>
         the_augmentJob r_omitted job = the_augmentJob r_pre job \<and>
         scheduler (baseWatchOptions r_omitted) = scheduler (baseWatchOptions r_pre) \<and>
         augmentJob (baseWatchOptions r_omitted) = augmentJob (baseWatchOptions r_pre) \<and>
         r_pre = r_omitted\<lparr>baseWatchOptions := (baseWatchOptions r_omitted)\<lparr>flush := Some Pre\<rparr>\<rparr> \<and>
         the_scheduler r_absent job True = [Invoke job] \<and>
         the_scheduler r_absent job False = [QueueJob job] \<and>
         has_flag (the_augmentJob r_absent job) (PRE env) \<and>
         the_scheduler r_absent job isFirstRun = the_scheduler r_only_pre job isFirstRun \<and>
         the_augmentJob r_absent job = the_augmentJob r_only_pre job \<and>
         r_only_pre = r_absent\<lparr>baseWatchOptions := (baseWatchOptions r_absent)\<lparr>flush := Some Pre\<rparr>\<rparr>"
proof -
  from assms(1) have pre: "PRE env \<noteq> 0"
    by (simp add: flags_distinct_def)
  have sch: "scheduler (baseWatchOptions r_omitted) = Some doWatch_scheduler"
    "scheduler (baseWatchOptions r_pre) = Some doWatch_scheduler"
    "scheduler (baseWatchOptions r_absent) = Some doWatch_scheduler"
    "scheduler (baseWatchOptions r_only_pre) = Some doWatch_scheduler"
    by (simp_all add: assms(2-) doWatch_scheduler_member effective_options_def EMPTY_OBJ_def)
  have run: "doWatch_scheduler job True = [Invoke job]" "doWatch_scheduler job False = [QueueJob job]"
    by (simp_all add: doWatch_scheduler_def queueJob_def)
  have aug: "augmentJob (baseWatchOptions r_omitted) =
               Some (doWatch_augmentJob env cb True (currentInstance env))"
    "augmentJob (baseWatchOptions r_pre) =
               Some (doWatch_augmentJob env cb True (currentInstance env))"
    "augmentJob (baseWatchOptions r_absent) =
               Some (doWatch_augmentJob env cb True (currentInstance env))"
    "augmentJob (baseWatchOptions r_only_pre) =
               Some (doWatch_augmentJob env cb True (currentInstance env))"
    by (simp_all add: assms(2-) doWatch_augmentJob_member effective_options_def EMPTY_OBJ_def)
  have flag: "has_flag (doWatch_augmentJob env cb True (currentInstance env) job) (PRE env)"
    by (simp add: has_flag_augmentJob pre)
  have key: "case currentInstance env of
            Some inst \<Rightarrow>
              job_id (doWatch_augmentJob env cb True (currentInstance env) job) = Some (uid inst) \<and>
              job_i (doWatch_augmentJob env cb True (currentInstance env) job) = Some inst
          | None \<Rightarrow>
              job_id (doWatch_augmentJob env cb True (currentInstance env) job) = job_id job \<and>
              job_i (doWatch_augmentJob env cb True (currentInstance env) job) = job_i job"
    by (simp add: augmentJob_id augmentJob_i split: option.splits)
  have c: "r_pre = r_omitted\<lparr>baseWatchOptions := (baseWatchOptions r_omitted)\<lparr>flush := Some Pre\<rparr>\<rparr>"
    by (simp add: assms(2-) doWatch_result effective_options_Some)
  have d: "r_only_pre = r_absent\<lparr>baseWatchOptions := (baseWatchOptions r_absent)\<lparr>flush := Some Pre\<rparr>\<rparr>"
    by (simp add: assms(2-) doWatch_result effective_options_Some effective_options_None EMPTY_OBJ_def)
  from key have key': "case currentInstance env of
            Some inst \<Rightarrow>
              job_id (the_augmentJob r_omitted job) = Some (uid inst) \<and>
              job_i (the_augmentJob r_omitted job) = Some inst \<and>
              job_id (the_augmentJob r_pre job) = Some (uid inst) \<and>
              job_i (the_augmentJob r_pre job) = Some inst
          | None \<Rightarrow>
              job_id (the_augmentJob r_omitted job) = job_id job \<and>
              job_i (the_augmentJob r_omitted job) = job_i job \<and>
              job_id (the_augmentJob r_pre job) = job_id job \<and>
              job_i (the_augmentJob r_pre job) = job_i job"
    by (simp add: aug split: option.splits)
  show ?thesis
    using flag key' c d by (simp add: sch run aug)
qed

text \<open>
  The theorem in a development build with a current instance, at options that held
  \<open>flush: 'post'\<close> before the member was cleared or set to \<open>'pre'\<close>: in both
  registrations a later run queues the job, and the hook gives a fresh job the flag
  \<open>PRE\<close>, the \<open>id\<close> 7 and the instance.
\<close>

theorem omitted_flush_is_pre_witness:
  "flags_distinct dev_env \<and>
   the_scheduler (doWatch dev_env 3 (Some 5) (Some (post_options\<lparr>flush := None\<rparr>)) :: sample_registration)
      fresh_job True = [Invoke fresh_job] \<and>
   the_scheduler (doWatch dev_env 3 (Some 5) (Some (post_options\<lparr>flush := None\<rparr>)) :: sample_registration)
      fresh_job False = [QueueJob fresh_job] \<and>
   the_scheduler (doWatch dev_env 3 (Some 5) (Some (post_options\<lparr>flush := Some Pre\<rparr>)) :: sample_registration)
      fresh_job False = [QueueJob fresh_job] \<and>
   has_flag (the_augmentJob
      (doWatch dev_env 3 (Some 5) (Some (post_options\<lparr>flush := None\<rparr>)) :: sample_registration)
      fresh_job) 2 \<and>
   has_flag (the_augmentJob
      (doWatch dev_env 3 (Some 5) (Some (post_options\<lparr>flush := Some Pre\<rparr>)) :: sample_registration)
      fresh_job) 2 \<and>
   job_id (the_augmentJob
      (doWatch dev_env 3 (Some 5) (Some (post_options\<lparr>flush := None\<rparr>)) :: sample_registration)
      fresh_job) = Some 7 \<and>
   job_i (the_augmentJob
      (doWatch dev_env 3 (Some 5) (Some (post_options\<lparr>flush := None\<rparr>)) :: sample_registration)
      fresh_job) = Some sample_instance \<and>
   job_id (the_augmentJob
      (doWatch dev_env 3 (Some 5) (Some (post_options\<lparr>flush := Some Pre\<rparr>)) :: sample_registration)
      fresh_job) = Some 7 \<and>
   has_flag (the_augmentJob (doWatch dev_env 3 (Some 5) None :: sample_registration) fresh_job) 2"
proof -
  have d: "flags_distinct dev_env"
    by (simp add: flags_distinct_def dev_env_def)
  have vals: "PRE dev_env = 2" "currentInstance dev_env = Some sample_instance"
    "uid sample_instance = 7"
    by (simp_all add: dev_env_def sample_instance_def)
  note t = omitted_flush_is_pre
    [where r_omitted = "doWatch dev_env 3 (Some 5) (Some (post_options\<lparr>flush := None\<rparr>)) :: sample_registration"
       and r_pre = "doWatch dev_env 3 (Some 5) (Some (post_options\<lparr>flush := Some Pre\<rparr>)) :: sample_registration"
       and r_absent = "doWatch dev_env 3 (Some 5) None :: sample_registration"
       and r_only_pre = "doWatch dev_env 3 (Some 5) (Some (EMPTY_OBJ\<lparr>flush := Some Pre\<rparr>)) :: sample_registration"
       and job = fresh_job and isFirstRun = False,
      OF d refl refl refl refl, unfolded vals option.case]
  from d t show ?thesis
    by blast
qed




text \<open>
  Claim C7. \<open>doWatch\<close> always installs \<open>call\<close>. A call of it is one call of
  \<open>callWithAsyncErrorHandling\<close>, with the function, the instance that was current at
  registration (or \<open>null\<close>), the caller's type tag and the caller's arguments, and
  nothing else; in particular the adapter does not invoke the function itself.
\<close>

theorem call_routes_through_error_handling:
  assumes "r = doWatch env source cb options"
  shows "call (baseWatchOptions r) \<noteq> None \<and>
         the_call r fn type args =
           [CallWithAsyncErrorHandling fn (currentInstance env) type args]"
  using assms
  by (simp add: doWatch_call_member doWatch_call_def callWithAsyncErrorHandling_def)

text \<open>
  The theorem with and without a current instance.
\<close>

theorem call_routes_through_error_handling_witness:
  "the_call (doWatch dev_env 3 (Some 5) None :: sample_registration) 11 ''watch callback'' (Some [1, 2])
     = [CallWithAsyncErrorHandling 11 (Some sample_instance) ''watch callback'' (Some [1, 2])] \<and>
   the_call (doWatch prod_env 3 None (Some post_options) :: sample_registration) 11 ''watch cleanup'' None
     = [CallWithAsyncErrorHandling 11 None ''watch cleanup'' None]"
  using
    call_routes_through_error_handling
      [where r = "doWatch dev_env 3 (Some 5) None :: sample_registration"
         and fn = 11 and type = "''watch callback''" and args = "Some [1, 2]", OF refl]
    call_routes_through_error_handling
      [where r = "doWatch prod_env 3 None (Some post_options) :: sample_registration"
         and fn = 11 and type = "''watch cleanup''" and args = None, OF refl]
  by (simp add: dev_env_def prod_env_def)

text \<open>
  Claim C8. With flush mode \<open>'post'\<close> the scheduler is \<open>queuePostCb\<close> itself, so every
  trigger, the first included, is one call of \<open>queuePostCb\<close> with the job.
\<close>

theorem post_scheduler_is_queuePostCb:
  assumes "r = doWatch env source cb options"
    and "flush (effective_options options) = Some Post"
  shows "scheduler (baseWatchOptions r) = Some queuePostCb \<and>
         the_scheduler r job isFirstRun = [QueuePostCb job isFirstRun]"
  using assms by (simp add: doWatch_scheduler_member queuePostCb_def)

text \<open>
  The theorem at a registration with \<open>flush: 'post'\<close>, for a first and a later run.
\<close>

theorem post_scheduler_is_queuePostCb_witness:
  "flush (effective_options (Some post_options)) = Some Post \<and>
   the_scheduler (doWatch dev_env 3 (Some 5) (Some post_options) :: sample_registration) fresh_job True
     = [QueuePostCb fresh_job True] \<and>
   the_scheduler (doWatch dev_env 3 (Some 5) (Some post_options) :: sample_registration) fresh_job False
     = [QueuePostCb fresh_job False]"
proof -
  have post: "flush (effective_options (Some post_options)) = Some Post"
    by (simp add: effective_options_def post_options_def)
  show ?thesis
    using post
      post_scheduler_is_queuePostCb
        [where r = "doWatch dev_env 3 (Some 5) (Some post_options) :: sample_registration"
           and job = fresh_job and isFirstRun = True, OF refl post]
      post_scheduler_is_queuePostCb
        [where r = "doWatch dev_env 3 (Some 5) (Some post_options) :: sample_registration"
           and job = fresh_job and isFirstRun = False, OF refl post]
    by (simp add: queuePostCb_def)
qed

text \<open>
  Claim C9. The hook only adds to a job. Every bit of the flags that was set before is
  set afterwards: the new flags are the old ones with \<open>ALLOW_RECURSE\<close> (if there is a
  callback) and \<open>PRE\<close> (if the flush mode is neither \<open>'post'\<close> nor \<open>'sync'\<close>) added.
  Everything of the job but \<open>flags\<close>, \<open>id\<close> and \<open>i\<close> is unchanged, and \<open>id\<close> and
  \<open>i\<close> are unchanged too unless the flush mode is \<open>'pre'\<close> or omitted and an instance
  was current.
\<close>

theorem augmentJob_frame:
  assumes "r = doWatch env source cb options"
    and "job' = the_augmentJob r job"
  shows "augmentJob (baseWatchOptions r) \<noteq> None \<and>
         (\<forall>n. bit (ToInt32 (job_flags job)) n \<longrightarrow> bit (ToInt32 (job_flags job')) n) \<and>
         ToInt32 (job_flags job') =
           ToInt32 (job_flags job)
             OR (if cb \<noteq> None then ALLOW_RECURSE env else 0)
             OR (if flush (effective_options options) \<noteq> Some Post \<and>
                    flush (effective_options options) \<noteq> Some Sync
                 then PRE env else 0) \<and>
         SchedulerJob.more job' = SchedulerJob.more job \<and>
         (\<not> (flush (effective_options options) \<noteq> Some Post \<and>
             flush (effective_options options) \<noteq> Some Sync \<and>
             currentInstance env \<noteq> None) \<longrightarrow>
            job_id job' = job_id job \<and> job_i job' = job_i job)"
proof -
  have fl: "ToInt32 (job_flags job') =
           ToInt32 (job_flags job)
             OR (if cb \<noteq> None then ALLOW_RECURSE env else 0)
             OR (if flush (effective_options options) \<noteq> Some Post \<and>
                    flush (effective_options options) \<noteq> Some Sync
                 then PRE env else 0)"
    by (simp add: assms doWatch_augmentJob_member augmentJob_flags)
  have bits: "\<forall>n. bit (ToInt32 (job_flags job)) n \<longrightarrow> bit (ToInt32 (job_flags job')) n"
    unfolding fl by (simp add: bit_or_iff)
  have more: "SchedulerJob.more job' = SchedulerJob.more job"
    by (simp add: assms doWatch_augmentJob_member augmentJob_more)
  have ids: "\<not> (flush (effective_options options) \<noteq> Some Post \<and>
             flush (effective_options options) \<noteq> Some Sync \<and>
             currentInstance env \<noteq> None) \<longrightarrow>
            job_id job' = job_id job \<and> job_i job' = job_i job"
    by (auto simp: assms doWatch_augmentJob_member augmentJob_id augmentJob_i)
  have inst: "augmentJob (baseWatchOptions r) \<noteq> None"
    by (simp add: assms(1) doWatch_augmentJob_member)
  from inst fl bits more ids show ?thesis by blast
qed

text \<open>
  The theorem at a job that has bit 0 and an \<open>id\<close>, registered outside any instance.
\<close>

theorem augmentJob_frame_witness:
  "bit (ToInt32 (job_flags queued_job)) 0 \<and>
   bit (ToInt32 (job_flags
     (the_augmentJob (doWatch prod_env 3 (Some 5) None :: sample_registration) queued_job))) 0 \<and>
   ToInt32 (job_flags
     (the_augmentJob (doWatch prod_env 3 (Some 5) None :: sample_registration) queued_job)) = 7 \<and>
   SchedulerJob.more
     (the_augmentJob (doWatch prod_env 3 (Some 5) None :: sample_registration) queued_job) = ''job'' \<and>
   currentInstance prod_env = None \<and>
   job_id (the_augmentJob (doWatch prod_env 3 (Some 5) None :: sample_registration) queued_job)
     = Some 9 \<and>
   job_i (the_augmentJob (doWatch prod_env 3 (Some 5) None :: sample_registration) queued_job)
     = None"
proof -
  have vals: "ToInt32 (job_flags queued_job) = 1" "job_id queued_job = Some 9"
    "job_i queued_job = None" "SchedulerJob.more queued_job = ''job''"
    "currentInstance prod_env = None" "ALLOW_RECURSE prod_env = 4" "PRE prod_env = 2"
    "flush (effective_options (None :: sample_options option)) = None"
    by (simp_all add: queued_job_def prod_env_def ToInt32_def effective_options_def EMPTY_OBJ_def)
  have seven: "(1 :: 32 word) OR 4 OR 2 = 7"
    by simp
  show ?thesis
    using augmentJob_frame
      [where r = "doWatch prod_env 3 (Some 5) None :: sample_registration"
         and job = queued_job, OF refl refl]
    by (simp add: vals seven)
qed

text \<open>
  Claim C10. \<open>watchPostEffect\<close> registers with flush mode \<open>'post'\<close> and
  \<open>watchSyncEffect\<close> with \<open>'sync'\<close>, whatever \<open>flush\<close> the caller's options hold; the
  first installs \<open>queuePostCb\<close> as scheduler, the second installs none (in a development
  build a scheduler held by the caller's object stays). In a production build the
  caller's options are dropped altogether: the registration is the one made with no
  options, of the declared members the engine receives \<open>flush\<close> only (\<open>truncate\<close>
  keeps the declared members), and it receives neither \<open>onWarn\<close> nor a scheduler of the
  caller's.
\<close>

theorem post_and_sync_effects_fix_flush:
  assumes "rp = watchPostEffect env effect options"
    and "rs = watchSyncEffect env effect options"
    and "rp0 = watchPostEffect env effect None"
    and "rs0 = watchSyncEffect env effect None"
  shows "flush (baseWatchOptions rp) = Some Post \<and>
         scheduler (baseWatchOptions rp) = Some queuePostCb \<and>
         flush (baseWatchOptions rs) = Some Sync \<and>
         scheduler (baseWatchOptions rs) =
           (if DEV env then scheduler (effective_options options) else None) \<and>
         (\<not> DEV env \<longrightarrow>
            rp = rp0 \<and> rs = rs0 \<and>
            scheduler (baseWatchOptions rs) = None \<and>
            onWarn (baseWatchOptions rp) = None \<and> onWarn (baseWatchOptions rs) = None \<and>
            WatchOptions.truncate (baseWatchOptions rp) =
              \<lparr>onTrack = None, onTrigger = None, flush = Some Post,
               immediate = None, deep = None, once = None\<rparr> \<and>
            WatchOptions.truncate (baseWatchOptions rs) =
              \<lparr>onTrack = None, onTrigger = None, flush = Some Sync,
               immediate = None, deep = None, once = None\<rparr>)"
proof -
  have p: "flush (baseWatchOptions rp) = Some Post \<and>
           scheduler (baseWatchOptions rp) = Some queuePostCb"
    by (simp add: assms(1) watchPostEffect_def doWatch_flush_member doWatch_scheduler_member
        effective_options_Some)
  have s: "flush (baseWatchOptions rs) = Some Sync \<and>
           scheduler (baseWatchOptions rs) =
             (if DEV env then scheduler (effective_options options) else None)"
    by (simp add: assms(2) watchSyncEffect_def doWatch_flush_member doWatch_scheduler_member
        effective_options_def EMPTY_OBJ_def split: option.splits)
  have prod: "\<not> DEV env \<longrightarrow>
            rp = rp0 \<and> rs = rs0 \<and>
            scheduler (baseWatchOptions rs) = None \<and>
            onWarn (baseWatchOptions rp) = None \<and> onWarn (baseWatchOptions rs) = None \<and>
            WatchOptions.truncate (baseWatchOptions rp) =
              \<lparr>onTrack = None, onTrigger = None, flush = Some Post,
               immediate = None, deep = None, once = None\<rparr> \<and>
            WatchOptions.truncate (baseWatchOptions rs) =
              \<lparr>onTrack = None, onTrigger = None, flush = Some Sync,
               immediate = None, deep = None, once = None\<rparr>"
  proof (intro impI conjI)
    assume production: "\<not> DEV env"
    show "rp = rp0" "rs = rs0"
      using production by (simp_all add: assms watchPostEffect_def watchSyncEffect_def)
    show "scheduler (baseWatchOptions rs) = None"
      using production s by simp
    show "onWarn (baseWatchOptions rp) = None" "onWarn (baseWatchOptions rs) = None"
      using production
      by (simp_all add: assms watchPostEffect_def watchSyncEffect_def doWatch_onWarn_member
          effective_options_Some EMPTY_OBJ_def)
    show "WatchOptions.truncate (baseWatchOptions rp) =
              \<lparr>onTrack = None, onTrigger = None, flush = Some Post,
               immediate = None, deep = None, once = None\<rparr>"
      "WatchOptions.truncate (baseWatchOptions rs) =
              \<lparr>onTrack = None, onTrigger = None, flush = Some Sync,
               immediate = None, deep = None, once = None\<rparr>"
      using production
      by (simp_all add: assms watchPostEffect_def watchSyncEffect_def doWatch_forwarded
          effective_options_Some truncate_flush_only)
  qed
  from p s prod show ?thesis by blast
qed

text \<open>
  The theorem in a production build, at options with a different \<open>flush\<close> and at options
  with further members.
\<close>

theorem post_and_sync_effects_fix_flush_witness:
  "\<not> DEV prod_env \<and>
   flush (baseWatchOptions (watchPostEffect prod_env 3 (Some pre_options) :: sample_registration))
     = Some Post \<and>
   flush (baseWatchOptions (watchSyncEffect prod_env 3 (Some pre_options) :: sample_registration))
     = Some Sync \<and>
   WatchOptions.truncate
     (baseWatchOptions (watchPostEffect prod_env 3 (Some noisy_options) :: sample_registration))
     = \<lparr>onTrack = None, onTrigger = None, flush = Some Post,
        immediate = None, deep = None, once = None\<rparr> \<and>
   scheduler
     (baseWatchOptions
       (watchSyncEffect prod_env 3 (Some sync_options_with_scheduler) :: sample_registration))
     = None"
proof -
  have prod: "\<not> DEV prod_env"
    by (simp add: prod_env_def)
  show ?thesis
    using prod
      post_and_sync_effects_fix_flush
        [where rp = "watchPostEffect prod_env 3 (Some pre_options) :: sample_registration"
           and rs = "watchSyncEffect prod_env 3 (Some pre_options) :: sample_registration"
           and ?rp0.0 = "watchPostEffect prod_env 3 None :: sample_registration"
           and ?rs0.0 = "watchSyncEffect prod_env 3 None :: sample_registration",
          OF refl refl refl refl]
      post_and_sync_effects_fix_flush
        [where rp = "watchPostEffect prod_env 3 (Some noisy_options) :: sample_registration"
           and rs = "watchSyncEffect prod_env 3 (Some noisy_options) :: sample_registration"
           and ?rp0.0 = "watchPostEffect prod_env 3 None :: sample_registration"
           and ?rs0.0 = "watchSyncEffect prod_env 3 None :: sample_registration",
          OF refl refl refl refl]
      post_and_sync_effects_fix_flush
        [where rp = "watchPostEffect prod_env 3 (Some sync_options_with_scheduler) :: sample_registration"
           and rs = "watchSyncEffect prod_env 3 (Some sync_options_with_scheduler) :: sample_registration"
           and ?rp0.0 = "watchPostEffect prod_env 3 None :: sample_registration"
           and ?rs0.0 = "watchSyncEffect prod_env 3 None :: sample_registration",
          OF refl refl refl refl]
    by blast
qed

end
